theory Spec2Isabelle
  imports Main
begin

section \<open>Go values shared by both resources\<close>

text \<open>
  A Go function either returns or panics. The panics that the modelled code can
  raise are a nil pointer dereference, an index out of range and a failed type
  assertion.
\<close>

datatype panic = NilPointerDereference | IndexOutOfRange | TypeAssertionFailed

datatype 'a outcome = Returned 'a | Panicked panic

text \<open>
  \<open>time.Time\<close>, as the wall-clock reading in its own zone; \<open>t_offset\<close> is the zone
  offset in minutes east of UTC. Years are those of four digits, the range of RFC 3339.
\<close>

record go_time =
  t_year :: nat
  t_month :: nat
  t_day :: nat
  t_hour :: nat
  t_minute :: nat
  t_second :: nat
  t_offset :: int

definition digit :: "nat \<Rightarrow> char" where
  "digit n = ''0123456789'' ! (n mod 10)"

definition pad2 :: "nat \<Rightarrow> string" where
  "pad2 n = [digit (n div 10), digit n]"

definition pad4 :: "nat \<Rightarrow> string" where
  "pad4 n = [digit (n div 1000), digit (n div 100), digit (n div 10), digit n]"

definition zone :: "int \<Rightarrow> string" where
  "zone off =
     (if off = 0 then ''Z''
      else (if off < 0 then ''-'' else ''+'')
           @ pad2 (nat \<bar>off\<bar> div 60) @ '':'' @ pad2 (nat \<bar>off\<bar> mod 60))"

text \<open>\<open>t.Format(time.RFC3339)\<close>, the layout \<open>2006-01-02T15:04:05Z07:00\<close>.\<close>

definition Format_RFC3339 :: "go_time \<Rightarrow> string" where
  "Format_RFC3339 t =
     pad4 (t_year t) @ ''-'' @ pad2 (t_month t) @ ''-'' @ pad2 (t_day t) @ ''T''
     @ pad2 (t_hour t) @ '':'' @ pad2 (t_minute t) @ '':'' @ pad2 (t_second t)
     @ zone (t_offset t)"

text \<open>The zero \<open>time.Time{}\<close>: January 1, year 1, 00:00:00 UTC.\<close>

definition zero_time :: go_time where
  "zero_time = \<lparr>t_year = 1, t_month = 1, t_day = 1, t_hour = 0, t_minute = 0,
                 t_second = 0, t_offset = 0\<rparr>"

text \<open>\<open>aws.ToString\<close> and \<open>aws.ToTime\<close>: the pointee, or the zero value for nil.\<close>

definition aws_ToString :: "string option \<Rightarrow> string" where
  "aws_ToString p = (case p of None \<Rightarrow> [] | Some s \<Rightarrow> s)"

definition aws_ToTime :: "go_time option \<Rightarrow> go_time" where
  "aws_ToTime p = (case p of None \<Rightarrow> zero_time | Some t \<Rightarrow> t)"

subsection \<open>Errors\<close>

text \<open>
  The values of type \<open>error\<close> that the code receives from the SDK clients or builds
  itself. \<open>NotFoundException\<close> is the one of SESV2, \<open>ResourceNotFoundException\<close> the
  one of Clean Rooms, \<open>OperationError\<close> any other failure of a remote call.
\<close>

datatype err =
    NotFoundException
  | ResourceNotFoundException
  | OperationError string
  | RetryNotFoundError err
  | EmptyResultError
  | ErrorsNew string
  | SmartError err

text \<open>
  \<open>smarterr.NewError(err)\<close> wraps the error with the call site; \<open>EmptyResultError\<close> is
  what \<open>tfresource.NewEmptyResultError\<close> builds and \<open>ErrorsNew\<close> what \<open>errors.New\<close> and
  \<open>fmt.Errorf\<close> build.
\<close>

definition smarterr_NewError :: "err \<Rightarrow> err" where
  "smarterr_NewError e = SmartError e"

text \<open>
  Modelled from the spec: \<open>errs.IsA\<close> (internal/errs) is not under src/. It is the
  test for \<open>a "not found" error from the remote API\<close>, here at the type
  \<open>*awstypes.NotFoundException\<close>, looked for through the wrappers as \<open>errors.As\<close> does.
\<close>

fun errs_IsA_NotFoundException :: "err \<Rightarrow> bool" where
  "errs_IsA_NotFoundException NotFoundException = True"
| "errs_IsA_NotFoundException (SmartError e) = errs_IsA_NotFoundException e"
| "errs_IsA_NotFoundException (RetryNotFoundError e) = errs_IsA_NotFoundException e"
| "errs_IsA_NotFoundException _ = False"

text \<open>
  Modelled from the spec: \<open>tfresource.NotFound\<close> (internal/tfresource) is not under
  src/. It recognises the \<open>NotFound\<close> of the taxonomy (\<open>remote object absent\<close>): the
  \<open>retry.NotFoundError\<close> that a finder builds, also through the wrappers, and the
  empty result of a finder. The argument is a Go \<open>error\<close>, nil being \<open>None\<close>.
\<close>

fun is_NotFoundError :: "err \<Rightarrow> bool" where
  "is_NotFoundError (RetryNotFoundError e) = True"
| "is_NotFoundError EmptyResultError = True"
| "is_NotFoundError (SmartError e) = is_NotFoundError e"
| "is_NotFoundError _ = False"

definition tfresource_NotFound :: "err option \<Rightarrow> bool" where
  "tfresource_NotFound err = (case err of None \<Rightarrow> False | Some e \<Rightarrow> is_NotFoundError e)"

section \<open>The SESV2 tenant resource\<close>

subsection \<open>SDK types and the client\<close>

type_synonym tag = "string \<times> string"

record Tenant =
  tn_CreatedTimestamp :: "go_time option"
  tn_SendingStatus :: string
  tn_Tags :: "tag list"
  tn_TenantArn :: "string option"
  tn_TenantId :: "string option"
  tn_TenantName :: "string option"

record CreateTenantInput =
  cti_Tags :: "tag list"
  cti_TenantName :: "string option"

record CreateTenantOutput =
  cto_CreatedTimestamp :: "go_time option"
  cto_SendingStatus :: string
  cto_Tags :: "tag list"
  cto_TenantArn :: "string option"
  cto_TenantId :: "string option"
  cto_TenantName :: "string option"

record GetTenantInput =
  gti_TenantName :: "string option"

record GetTenantOutput =
  gto_Tenant :: "Tenant option"

record DeleteTenantInput =
  dti_TenantName :: "string option"

record TenantInfo =
  ti_CreatedTimestamp :: "go_time option"
  ti_TenantArn :: "string option"
  ti_TenantId :: "string option"
  ti_TenantName :: "string option"

record ListTenantsOutput =
  lto_NextToken :: "string option"
  lto_Tenants :: "TenantInfo list"

text \<open>
  The client is the remote API: each operation answers a request with the Go pair of an
  output pointer and an error. The paginator of \<open>ListTenants\<close> is the list of the
  answers of its \<open>NextPage\<close> calls, up to the one after which \<open>HasMorePages\<close> is false.
\<close>

record sesv2_Client =
  CreateTenant :: "CreateTenantInput \<Rightarrow> CreateTenantOutput option \<times> err option"
  GetTenant :: "GetTenantInput \<Rightarrow> GetTenantOutput option \<times> err option"
  DeleteTenant :: "DeleteTenantInput \<Rightarrow> err option"
  ListTenantsPages :: "(err + ListTenantsOutput) list"

datatype sesv2_call =
    CreateTenantCall CreateTenantInput
  | GetTenantCall GetTenantInput
  | DeleteTenantCall DeleteTenantInput

subsection \<open>The record of the resource and the framework's requests\<close>

text \<open>
  \<open>resourceTenantModel\<close>; a \<open>types.String\<close> is \<open>None\<close> when null. \<open>m_Region\<close> is the
  field of the embedded \<open>framework.WithRegionModel\<close>.
\<close>

record resourceTenantModel =
  m_Region :: "string option"
  m_ARN :: "string option"
  m_CreatedTimestamp :: "string option"
  m_ID :: "string option"
  m_SendingStatus :: "string option"
  m_Tags :: "tag list option"
  m_TagsAll :: "tag list option"
  m_TenantName :: "string option"

definition ValueString :: "string option \<Rightarrow> string" where
  "ValueString v = (case v of None \<Rightarrow> [] | Some s \<Rightarrow> s)"

definition ValueStringPointer :: "string option \<Rightarrow> string option" where
  "ValueStringPointer v = v"

definition types_StringValue :: "string \<Rightarrow> string option" where
  "types_StringValue s = Some s"

text \<open>
  Modelled from the spec: \<open>smerr.AddError\<close>, \<open>smerr.AddEnrich\<close> (internal/smerr) and
  \<open>fwdiag.NewResourceNotFoundWarningDiagnostic\<close> (internal/errs/fwdiag) are not under
  src/. An error is \<open>surfaced with the identifier attached for diagnosis\<close>: the
  diagnostic that \<open>smerr.AddError\<close> adds holds the error and the attribute given as its
  id. The other diagnostics are an error of the framework itself (a plan or state that
  does not decode) and the not-found warning, which is no error.
\<close>

datatype diagnostic =
    ErrorDiagnostic err "string option"
  | FrameworkError string
  | ResourceNotFoundWarning "err option"

fun is_error :: "diagnostic \<Rightarrow> bool" where
  "is_error (ErrorDiagnostic e i) = True"
| "is_error (FrameworkError s) = True"
| "is_error (ResourceNotFoundWarning e) = False"

definition HasError :: "diagnostic list \<Rightarrow> bool" where
  "HasError ds = list_ex is_error ds"

text \<open>
  A request holds what \<open>req.Plan.Get\<close> or \<open>req.State.Get\<close> yields: the diagnostics of
  the decoding and the decoded record. A response holds the diagnostics and the state
  that the framework will store, \<open>None\<close> when there is none (never set, or removed).
\<close>

record CreateRequest =
  cr_Plan :: "diagnostic list \<times> resourceTenantModel"

record ReadRequest =
  rr_State :: "diagnostic list \<times> resourceTenantModel"

record DeleteRequest =
  dr_State :: "diagnostic list \<times> resourceTenantModel"

record Response =
  Diagnostics :: "diagnostic list"
  State :: "resourceTenantModel option"

definition smerr_AddError :: "Response \<Rightarrow> err \<Rightarrow> string option \<Rightarrow> Response" where
  "smerr_AddError resp e i = resp\<lparr>Diagnostics := Diagnostics resp @ [ErrorDiagnostic e i]\<rparr>"

definition smerr_AddEnrich :: "Response \<Rightarrow> diagnostic list \<Rightarrow> Response" where
  "smerr_AddEnrich resp ds = resp\<lparr>Diagnostics := Diagnostics resp @ ds\<rparr>"

subsection \<open>The field mapping\<close>

text \<open>
  Modelled from the spec: \<open>flex.Expand\<close> and \<open>flex.Flatten\<close> (internal/framework/flex)
  are not under src/. They are the spec's field mapping: a correspondence between local
  and remote field names with direct value copy, rename-only copy and ignored fields,
  unmapped remote fields being dropped. The source's comment says that the field name
  prefix \<open>Tenant\<close> is what maps \<open>ID\<close> to \<open>TenantId\<close> (and so \<open>ARN\<close> to \<open>TenantArn\<close>);
  \<open>TenantName\<close> and \<open>SendingStatus\<close> have the same name on both sides. Tags are
  ignored in both directions, the created timestamp when flattening.
\<close>

definition flex_Expand :: "resourceTenantModel \<Rightarrow> diagnostic list \<times> CreateTenantInput" where
  "flex_Expand plan = ([], \<lparr>cti_Tags = [], cti_TenantName = m_TenantName plan\<rparr>)"

definition flex_Flatten_CreateTenantOutput ::
  "CreateTenantOutput \<Rightarrow> resourceTenantModel \<Rightarrow> diagnostic list \<times> resourceTenantModel" where
  "flex_Flatten_CreateTenantOutput out plan =
     ([], plan\<lparr>m_ARN := cto_TenantArn out,
               m_ID := cto_TenantId out,
               m_SendingStatus := Some (cto_SendingStatus out),
               m_TenantName := cto_TenantName out\<rparr>)"

text \<open>In Read the mapping is called without the prefix: only the equal names map.\<close>

definition flex_Flatten_Tenant ::
  "Tenant \<Rightarrow> resourceTenantModel \<Rightarrow> diagnostic list \<times> resourceTenantModel" where
  "flex_Flatten_Tenant out state =
     ([], state\<lparr>m_SendingStatus := Some (tn_SendingStatus out),
                m_TenantName := tn_TenantName out\<rparr>)"

subsection \<open>The operations\<close>

definition resourceTenant_Create ::
  "sesv2_Client \<Rightarrow> CreateRequest \<Rightarrow> Response outcome \<times> sesv2_call list" where
  "resourceTenant_Create conn req =
     (let (ds, plan) = cr_Plan req;
          resp = smerr_AddEnrich \<lparr>Diagnostics = [], State = None\<rparr> ds
      in if HasError (Diagnostics resp) then (Returned resp, [])
      else
        let (ds2, input) = flex_Expand plan;
            resp = smerr_AddEnrich resp ds2
        in if HasError (Diagnostics resp) then (Returned resp, [])
        else
          let (out, err) = CreateTenant conn input;
              calls = [CreateTenantCall input]
          in case err of
               Some e \<Rightarrow> (Returned (smerr_AddError resp e (m_TenantName plan)), calls)
             | None \<Rightarrow>
                 (case out of
                    None \<Rightarrow>
                      (Returned (smerr_AddError resp (ErrorsNew ''empty output'')
                                   (m_TenantName plan)), calls)
                  | Some res \<Rightarrow>
                      if cto_TenantId res = None
                      then (Returned (smerr_AddError resp (ErrorsNew ''empty output'')
                                        (m_TenantName plan)), calls)
                      else
                        let (ds3, plan1) = flex_Flatten_CreateTenantOutput res plan;
                            resp = smerr_AddEnrich resp ds3
                        in if HasError (Diagnostics resp) then (Returned resp, calls)
                        else
                          let plan2 = plan1
                                \<lparr>m_ID := types_StringValue (aws_ToString (cto_TenantId res))\<rparr>;
                              plan3 = plan2
                                \<lparr>m_ARN := types_StringValue (aws_ToString (cto_TenantArn res))\<rparr>;
                              plan4 = plan3
                                \<lparr>m_CreatedTimestamp := types_StringValue
                                   (Format_RFC3339 (aws_ToTime (cto_CreatedTimestamp res)))\<rparr>
                          in (Returned (resp\<lparr>State := Some plan4\<rparr>), calls)))"

text \<open>\<open>FindTenantByName\<close> returns the Go pair of a tenant pointer and an error.\<close>

definition FindTenantByName ::
  "sesv2_Client \<Rightarrow> string \<Rightarrow> (Tenant option \<times> err option) \<times> sesv2_call list" where
  "FindTenantByName conn name' =
     (let input = \<lparr>gti_TenantName = Some name'\<rparr>;
          (out, err) = GetTenant conn input;
          calls = [GetTenantCall input]
      in case err of
           Some e \<Rightarrow>
             if errs_IsA_NotFoundException e
             then ((None, Some (smarterr_NewError (RetryNotFoundError e))), calls)
             else ((None, Some (smarterr_NewError e)), calls)
         | None \<Rightarrow>
             (case out of
                None \<Rightarrow> ((None, Some (smarterr_NewError EmptyResultError)), calls)
              | Some res \<Rightarrow>
                  (case gto_Tenant res of
                     None \<Rightarrow> ((None, Some (smarterr_NewError EmptyResultError)), calls)
                   | Some t \<Rightarrow> ((Some t, None), calls))))"

text \<open>
  Read. The response starts with the request's state. The line that prints
  \<open>*out.TenantName\<close> comes before the error is looked at: it dereferences \<open>out\<close>, nil
  whenever the finder returned an error, and then the name pointer.
\<close>

definition resourceTenant_Read ::
  "sesv2_Client \<Rightarrow> ReadRequest \<Rightarrow> Response outcome \<times> sesv2_call list" where
  "resourceTenant_Read conn req =
     (let (ds, state) = rr_State req;
          resp = smerr_AddEnrich \<lparr>Diagnostics = [], State = Some state\<rparr> ds
      in if HasError (Diagnostics resp) then (Returned resp, [])
      else
        let ((out, err), calls) = FindTenantByName conn (ValueString (m_TenantName state))
        in case out of
             None \<Rightarrow> (Panicked NilPointerDereference, calls)
           | Some t \<Rightarrow>
               (case tn_TenantName t of
                  None \<Rightarrow> (Panicked NilPointerDereference, calls)
                | Some printed \<Rightarrow>
                    if tfresource_NotFound err
                    then (Returned (resp\<lparr>Diagnostics := Diagnostics resp
                                            @ [ResourceNotFoundWarning err],
                                          State := None\<rparr>), calls)
                    else
                      (case err of
                         Some e \<Rightarrow> (Returned (smerr_AddError resp e (m_ID state)), calls)
                       | None \<Rightarrow>
                           let state1 = state\<lparr>m_CreatedTimestamp := types_StringValue
                                 (Format_RFC3339 (aws_ToTime (tn_CreatedTimestamp t)))\<rparr>;
                               (ds2, state2) = flex_Flatten_Tenant t state1;
                               resp = smerr_AddEnrich resp ds2
                           in if HasError (Diagnostics resp) then (Returned resp, calls)
                           else (Returned (resp\<lparr>State := Some state2\<rparr>), calls))))"

text \<open>Delete. The response starts with the request's state; Delete never sets it.\<close>

definition resourceTenant_Delete ::
  "sesv2_Client \<Rightarrow> DeleteRequest \<Rightarrow> Response outcome \<times> sesv2_call list" where
  "resourceTenant_Delete conn req =
     (let (ds, state) = dr_State req;
          resp = smerr_AddEnrich \<lparr>Diagnostics = [], State = Some state\<rparr> ds
      in if HasError (Diagnostics resp) then (Returned resp, [])
      else
        let input = \<lparr>dti_TenantName = ValueStringPointer (m_TenantName state)\<rparr>;
            err = DeleteTenant conn input;
            calls = [DeleteTenantCall input]
        in case err of
             Some e \<Rightarrow>
               if errs_IsA_NotFoundException e then (Returned resp, calls)
               else (Returned (smerr_AddError resp e (m_ID state)), calls)
           | None \<Rightarrow> (Returned resp, calls))"

text \<open>
  ImportState: \<open>resource.ImportStatePassthroughID\<close> at \<open>path.Root("id")\<close> writes the
  identifier of the request into the attribute \<open>id\<close> of an otherwise null state.
\<close>

definition null_model :: resourceTenantModel where
  "null_model = \<lparr>m_Region = None, m_ARN = None, m_CreatedTimestamp = None, m_ID = None,
                  m_SendingStatus = None, m_Tags = None, m_TagsAll = None,
                  m_TenantName = None\<rparr>"

definition resourceTenant_ImportState :: "string \<Rightarrow> Response" where
  "resourceTenant_ImportState ident =
     \<lparr>Diagnostics = [], State = Some (null_model\<lparr>m_ID := Some ident\<rparr>)\<rparr>"

subsection \<open>The sweeper\<close>





section \<open>The Clean Rooms configured table resource\<close>

subsection \<open>SDK types and the client\<close>

record GlueTableReference =
  DatabaseName :: "string option"
  TableName :: "string option"

text \<open>
  \<open>types.TableReference\<close> is an interface with the member
  \<open>*types.TableReferenceMemberGlue\<close>; \<open>TableReferenceUnknown\<close> stands for every other
  implementation.
\<close>

datatype TableReference = TableReferenceMemberGlue GlueTableReference | TableReferenceUnknown

datatype AnalysisMethod = AnalysisMethodDirectQuery

record ConfiguredTable =
  ct_AllowedColumns :: "string list"
  ct_AnalysisMethod :: string
  ct_Arn :: "string option"
  ct_CreateTime :: "go_time option"
  ct_Description :: "string option"
  ct_Id :: "string option"
  ct_Name :: "string option"
  ct_TableReference :: "TableReference option"
  ct_UpdateTime :: "go_time option"

record CreateConfiguredTableInput =
  cci_Name :: "string option"
  cci_AllowedColumns :: "string list"
  cci_TableReference :: TableReference
  cci_Tags :: "tag list"
  cci_AnalysisMethod :: "AnalysisMethod option"
  cci_Description :: "string option"

record CreateConfiguredTableOutput =
  cco_ConfiguredTable :: "ConfiguredTable option"

record GetConfiguredTableInput =
  gci_ConfiguredTableIdentifier :: "string option"

record GetConfiguredTableOutput =
  gco_ConfiguredTable :: "ConfiguredTable option"

record UpdateConfiguredTableInput =
  uci_ConfiguredTableIdentifier :: "string option"
  uci_Description :: "string option"
  uci_Name :: "string option"

record DeleteConfiguredTableInput =
  dci_ConfiguredTableIdentifier :: "string option"

text \<open>\<open>TagsIn\<close> is what \<open>getTagsIn(ctx)\<close> returns.\<close>

record cleanrooms_Client =
  CreateConfiguredTable ::
    "CreateConfiguredTableInput \<Rightarrow> CreateConfiguredTableOutput option \<times> err option"
  GetConfiguredTable ::
    "GetConfiguredTableInput \<Rightarrow> GetConfiguredTableOutput option \<times> err option"
  UpdateConfiguredTable :: "UpdateConfiguredTableInput \<Rightarrow> err option"
  DeleteConfiguredTable :: "DeleteConfiguredTableInput \<Rightarrow> err option"
  TagsIn :: "tag list"

datatype cleanrooms_call =
    CreateConfiguredTableCall CreateConfiguredTableInput
  | GetConfiguredTableCall GetConfiguredTableInput
  | UpdateConfiguredTableCall UpdateConfiguredTableInput
  | DeleteConfiguredTableCall DeleteConfiguredTableInput

subsection \<open>The schema\<close>

datatype ValueType = TypeString | TypeList | TypeSet | TypeMap

text \<open>A \<open>schema.Schema\<close>; a field that the source leaves out has Go's zero value.\<close>

record Schema =
  Type :: ValueType
  Required :: bool
  Optional :: bool
  Computed :: bool
  ForceNew :: bool
  MinItems :: nat
  MaxItems :: nat

definition schema0 :: "ValueType \<Rightarrow> Schema" where
  "schema0 ty = \<lparr>Type = ty, Required = False, Optional = False, Computed = False,
                  ForceNew = False, MinItems = 0, MaxItems = 0\<rparr>"

text \<open>
  The attributes of \<open>ResourceConfiguredTable\<close>, in the order of the source, with the
  values of the \<open>names\<close> constants as keys. \<open>tftags.TagsSchema()\<close> is an optional map and
  \<open>tftags.TagsSchemaComputed()\<close> an optional, computed one.
\<close>

definition ResourceConfiguredTable_Schema :: "(string \<times> Schema) list" where
  "ResourceConfiguredTable_Schema =
     [(''allowed_columns'', (schema0 TypeSet)
          \<lparr>Required := True, ForceNew := True, MinItems := 1, MaxItems := 225\<rparr>),
      (''analysis_method'', (schema0 TypeString)\<lparr>Required := True\<rparr>),
      (''arn'', (schema0 TypeString)\<lparr>Computed := True\<rparr>),
      (''create_time'', (schema0 TypeString)\<lparr>Computed := True\<rparr>),
      (''description'', (schema0 TypeString)\<lparr>Optional := True\<rparr>),
      (''name'', (schema0 TypeString)\<lparr>Required := True\<rparr>),
      (''table_reference'', (schema0 TypeList)
          \<lparr>Required := True, ForceNew := True, MaxItems := 1\<rparr>),
      (''tags'', (schema0 TypeMap)\<lparr>Optional := True\<rparr>),
      (''tags_all'', (schema0 TypeMap)\<lparr>Optional := True, Computed := True\<rparr>),
      (''update_time'', (schema0 TypeString)\<lparr>Computed := True\<rparr>)]"

definition schema_keys :: "string list" where
  "schema_keys = map fst ResourceConfiguredTable_Schema"

subsection \<open>ResourceData\<close>

text \<open>
  A Go value of type \<open>interface{}\<close> as the resource data holds it: nil, a string, a
  time, a set of strings, a list, a map with string keys.
\<close>

datatype iface =
    INil
  | IString string
  | ITime go_time
  | ISet "string list"
  | IList "iface list"
  | IMap "(string \<times> iface) list"

text \<open>
  \<open>schema.ResourceData\<close>: the id, the new-resource mark, the attributes of the prior
  state and the attributes that \<open>d.Get\<close> reads (the planned values, overwritten by
  \<open>d.Set\<close>). \<open>d.Get\<close> never returns nil: an attribute that is unset or nil reads as the
  zero value of its schema type.
\<close>

record ResourceData =
  rd_Id :: string
  rd_IsNewResource :: bool
  rd_state :: "string \<Rightarrow> iface option"
  rd_attrs :: "string \<Rightarrow> iface option"

definition zero_value :: "string \<Rightarrow> iface" where
  "zero_value k =
     (case map_of ResourceConfiguredTable_Schema k of
        None \<Rightarrow> INil
      | Some s \<Rightarrow>
          (case Type s of
             TypeString \<Rightarrow> IString []
           | TypeList \<Rightarrow> IList []
           | TypeSet \<Rightarrow> ISet []
           | TypeMap \<Rightarrow> IMap []))"

definition read_level :: "(string \<Rightarrow> iface option) \<Rightarrow> string \<Rightarrow> iface" where
  "read_level lvl k =
     (case lvl k of None \<Rightarrow> zero_value k | Some INil \<Rightarrow> zero_value k | Some v \<Rightarrow> v)"

definition d_Get :: "ResourceData \<Rightarrow> string \<Rightarrow> iface" where
  "d_Get d k = read_level (rd_attrs d) k"

definition d_GetOk :: "ResourceData \<Rightarrow> string \<Rightarrow> iface \<times> bool" where
  "d_GetOk d k = (d_Get d k, d_Get d k \<noteq> zero_value k)"

text \<open>\<open>d.GetChange\<close> gives the old and the new value; sets compare as sets.\<close>

fun iface_equal :: "iface \<Rightarrow> iface \<Rightarrow> bool" where
  "iface_equal (ISet xs) (ISet ys) = (set xs = set ys)"
| "iface_equal v w = (v = w)"

definition d_HasChange :: "ResourceData \<Rightarrow> string \<Rightarrow> bool" where
  "d_HasChange d k = (\<not> iface_equal (read_level (rd_state d) k) (d_Get d k))"

definition d_HasChanges :: "ResourceData \<Rightarrow> string list \<Rightarrow> bool" where
  "d_HasChanges d keys = list_ex (d_HasChange d) keys"

definition d_HasChangesExcept :: "ResourceData \<Rightarrow> string list \<Rightarrow> bool" where
  "d_HasChangesExcept d keys =
     list_ex (\<lambda>k. k \<notin> set keys \<and> d_HasChange d k) schema_keys"

text \<open>
  \<open>d.Set\<close> converts the value to the schema type of the key and stores it, or
  returns an error and stores nothing. A nil value is stored for every type. A pointer
  to a string reaches the conversion as its string, but a pointer to a struct, such as
  the \<open>*time.Time\<close> of a creation time, is kept as it is and does not convert to the
  string of a \<open>TypeString\<close> attribute; a key that the schema does not have is an
  error too.
\<close>

fun fits :: "ValueType \<Rightarrow> iface \<Rightarrow> bool" where
  "fits ty INil = True"
| "fits TypeString (IString s) = True"
| "fits TypeSet (ISet xs) = True"
| "fits TypeList (IList xs) = True"
| "fits TypeMap (IMap m) = True"
| "fits ty v = False"

definition d_Set :: "ResourceData \<Rightarrow> string \<Rightarrow> iface \<Rightarrow> err option \<times> ResourceData" where
  "d_Set d k v =
     (case map_of ResourceConfiguredTable_Schema k of
        None \<Rightarrow> (Some (ErrorsNew ''invalid key''), d)
      | Some s \<Rightarrow>
          if fits (Type s) v then (None, d\<lparr>rd_attrs := (rd_attrs d)(k \<mapsto> v)\<rparr>)
          else (Some (ErrorsNew ''unconvertible type''), d))"

definition d_SetId :: "ResourceData \<Rightarrow> string \<Rightarrow> ResourceData" where
  "d_SetId d v = d\<lparr>rd_Id := v\<rparr>"

text \<open>The Go values passed to \<open>d.Set\<close>: a string pointer, a time pointer.\<close>

definition string_ptr :: "string option \<Rightarrow> iface" where
  "string_ptr p = (case p of None \<Rightarrow> INil | Some s \<Rightarrow> IString s)"

definition time_ptr :: "go_time option \<Rightarrow> iface" where
  "time_ptr p = (case p of None \<Rightarrow> INil | Some t \<Rightarrow> ITime t)"

text \<open>The type assertions \<open>.(string)\<close>, \<open>.(*schema.Set)\<close> through
  \<open>flex.ExpandStringValueSet\<close>, and \<open>.([]interface{})\<close> on what \<open>d.Get\<close> returns.\<close>

definition as_string :: "iface \<Rightarrow> string outcome" where
  "as_string v = (case v of IString s \<Rightarrow> Returned s | _ \<Rightarrow> Panicked TypeAssertionFailed)"

definition ExpandStringValueSet :: "iface \<Rightarrow> string list outcome" where
  "ExpandStringValueSet v =
     (case v of ISet xs \<Rightarrow> Returned xs | _ \<Rightarrow> Panicked TypeAssertionFailed)"

definition as_list :: "iface \<Rightarrow> iface list outcome" where
  "as_list v = (case v of IList xs \<Rightarrow> Returned xs | _ \<Rightarrow> Panicked TypeAssertionFailed)"

text \<open>A panic ends the function; \<open>bind\<close> goes on with the value otherwise.\<close>

definition bind :: "'a outcome \<Rightarrow> ('a \<Rightarrow> 'b outcome \<times> 'c list) \<Rightarrow> 'b outcome \<times> 'c list" where
  "bind x f = (case x of Panicked p \<Rightarrow> (Panicked p, []) | Returned v \<Rightarrow> f v)"

subsection \<open>Expanders and flatteners\<close>

datatype action = ErrActionCreating | ErrActionReading | ErrActionUpdating | ErrActionDeleting

datatype resname = ResNameConfiguredTable | ResNameCollaboration

text \<open>
  Modelled from the spec: \<open>create.DiagError\<close> (internal/create) and the constant
  \<open>ResNameCollaboration\<close> are not under src/. An error is \<open>surfaced with resource
  type, operation, and identifier attached\<close>: the diagnostic holds the action, the
  resource name, the id and the error. \<open>Errorf\<close> is \<open>diag.Errorf\<close>. The empty list is
  Go's nil, no error.
\<close>

datatype sdk_diag = DiagError action resname string err | Errorf string

definition expandAnalysisMethod :: "string \<Rightarrow> AnalysisMethod \<times> err option" where
  "expandAnalysisMethod analysisMethod =
     (if analysisMethod = ''DIRECT_QUERY'' then (AnalysisMethodDirectQuery, None)
      else (AnalysisMethodDirectQuery,
            Some (ErrorsNew
              ''Invalid analysis method. The only valid value is currently `DIRECT_QUERY`'')))"

text \<open>
  \<open>expandTableReference\<close>: \<open>data[0]\<close> panics on the empty list; the assertion to a map
  panics on anything else than a map; a missing key reads as nil, on which the assertion
  to a string panics.
\<close>

definition map_string :: "(string \<times> iface) list \<Rightarrow> string \<Rightarrow> string outcome" where
  "map_string m k = (case map_of m k of None \<Rightarrow> Panicked TypeAssertionFailed | Some v \<Rightarrow> as_string v)"

definition expandTableReference :: "iface list \<Rightarrow> TableReference outcome" where
  "expandTableReference data =
     (case data of
        [] \<Rightarrow> Panicked IndexOutOfRange
      | x # rest \<Rightarrow>
          (case x of
             IMap tableReference \<Rightarrow>
               (case map_string tableReference ''database_name'' of
                  Panicked p \<Rightarrow> Panicked p
                | Returned db \<Rightarrow>
                    (case map_string tableReference ''table_name'' of
                       Panicked p \<Rightarrow> Panicked p
                     | Returned tbl \<Rightarrow>
                         Returned (TableReferenceMemberGlue
                           \<lparr>DatabaseName = Some db, TableName = Some tbl\<rparr>)))
           | _ \<Rightarrow> Panicked TypeAssertionFailed))"

definition flattenTableReference :: "TableReference option \<Rightarrow> iface list" where
  "flattenTableReference tableReference =
     (case tableReference of
        Some (TableReferenceMemberGlue v) \<Rightarrow>
          [IMap [(''database_name'', string_ptr (DatabaseName v)),
                 (''table_name'', string_ptr (TableName v))]]
      | _ \<Rightarrow> [])"

subsection \<open>The operations\<close>

definition findConfiguredTableByID ::
  "cleanrooms_Client \<Rightarrow> string
     \<Rightarrow> (GetConfiguredTableOutput option \<times> err option) \<times> cleanrooms_call list" where
  "findConfiguredTableByID conn ident =
     (let in' = \<lparr>gci_ConfiguredTableIdentifier = Some ident\<rparr>;
          (out, err) = GetConfiguredTable conn in';
          calls = [GetConfiguredTableCall in']
      in case err of
           Some e \<Rightarrow> ((None, Some e), calls)
         | None \<Rightarrow>
             (case out of
                None \<Rightarrow> ((None, Some EmptyResultError), calls)
              | Some res \<Rightarrow>
                  (case gco_ConfiguredTable res of
                     None \<Rightarrow> ((None, Some EmptyResultError), calls)
                   | Some t \<Rightarrow> ((Some res, None), calls))))"

text \<open>
  Every operation returns the diagnostics with the resource data as the operation
  leaves it, and the remote calls it made, in order.
\<close>

definition resourceConfiguredTableRead ::
  "cleanrooms_Client \<Rightarrow> ResourceData
     \<Rightarrow> (sdk_diag list \<times> ResourceData) outcome \<times> cleanrooms_call list" where
  "resourceConfiguredTableRead conn d =
     (let ((out, err), calls) = findConfiguredTableByID conn (rd_Id d)
      in if \<not> rd_IsNewResource d \<and> tfresource_NotFound err
         then (Returned ([], d_SetId d []), calls)
         else
           (case err of
              Some e \<Rightarrow>
                (Returned ([DiagError ErrActionReading ResNameConfiguredTable (rd_Id d) e], d),
                 calls)
            | None \<Rightarrow>
                (case out of
                   None \<Rightarrow> (Panicked NilPointerDereference, calls)
                 | Some res \<Rightarrow>
                     (case gco_ConfiguredTable res of
                        None \<Rightarrow> (Panicked NilPointerDereference, calls)
                      | Some configuredTable \<Rightarrow>
                          let d1 = snd (d_Set d ''arn'' (string_ptr (ct_Arn configuredTable)));
                              d2 = snd (d_Set d1 ''name'' (string_ptr (ct_Name configuredTable)));
                              d3 = snd (d_Set d2 ''description''
                                     (string_ptr (ct_Description configuredTable)));
                              d4 = snd (d_Set d3 ''allowed_columns''
                                     (ISet (ct_AllowedColumns configuredTable)));
                              d5 = snd (d_Set d4 ''analysis_method''
                                     (IString (ct_AnalysisMethod configuredTable)));
                              d6 = snd (d_Set d5 ''create_time''
                                     (time_ptr (ct_CreateTime configuredTable)));
                              (err7, d7) = d_Set d6 ''table_reference''
                                     (IList (flattenTableReference
                                        (ct_TableReference configuredTable)))
                          in (case err7 of
                                Some e \<Rightarrow> (Returned ([Errorf ''setting table_reference''], d7),
                                            calls)
                              | None \<Rightarrow> (Returned ([], d7), calls))))))"

definition resourceConfiguredTableCreate ::
  "cleanrooms_Client \<Rightarrow> ResourceData
     \<Rightarrow> (sdk_diag list \<times> ResourceData) outcome \<times> cleanrooms_call list" where
  "resourceConfiguredTableCreate conn d =
     bind (as_string (d_Get d ''name'')) (\<lambda>name'.
     bind (ExpandStringValueSet (d_Get d ''allowed_columns'')) (\<lambda>allowedColumns.
     bind (as_list (d_Get d ''table_reference'')) (\<lambda>data.
     bind (expandTableReference data) (\<lambda>tableReference.
     bind (as_string (d_Get d ''analysis_method'')) (\<lambda>am.
       let input = \<lparr>cci_Name = Some name', cci_AllowedColumns = allowedColumns,
                    cci_TableReference = tableReference, cci_Tags = TagsIn conn,
                    cci_AnalysisMethod = None, cci_Description = None\<rparr>;
           (analysisMethod, err) = expandAnalysisMethod am
       in case err of
            Some e \<Rightarrow>
              (Returned ([DiagError ErrActionCreating ResNameConfiguredTable name' e], d), [])
          | None \<Rightarrow>
              let input = input\<lparr>cci_AnalysisMethod := Some analysisMethod\<rparr>;
                  (v, ok) = d_GetOk d ''description''
              in bind (if ok then as_string v else Returned []) (\<lambda>descr.
                let input = (if ok then input\<lparr>cci_Description := Some descr\<rparr> else input);
                    (out, err) = CreateConfiguredTable conn input;
                    calls = [CreateConfiguredTableCall input]
                in case err of
                     Some e \<Rightarrow>
                       (Returned ([DiagError ErrActionCreating ResNameConfiguredTable name' e],
                                  d), calls)
                   | None \<Rightarrow>
                       (case out of
                          None \<Rightarrow>
                            (Returned ([DiagError ErrActionCreating ResNameCollaboration name'
                                          (ErrorsNew ''empty output'')], d), calls)
                        | Some res \<Rightarrow>
                            (case cco_ConfiguredTable res of
                               None \<Rightarrow>
                                 (Returned ([DiagError ErrActionCreating ResNameCollaboration
                                               name' (ErrorsNew ''empty output'')], d), calls)
                             | Some t \<Rightarrow>
                                 let d1 = d_SetId d (aws_ToString (ct_Id t));
                                     (r, calls2) = resourceConfiguredTableRead conn d1
                                 in (r, calls @ calls2)))))))))"

definition resourceConfiguredTableUpdate ::
  "cleanrooms_Client \<Rightarrow> ResourceData
     \<Rightarrow> (sdk_diag list \<times> ResourceData) outcome \<times> cleanrooms_call list" where
  "resourceConfiguredTableUpdate conn d =
     (if d_HasChangesExcept d [''tags'', ''tags_all'']
      then
        let input = \<lparr>uci_ConfiguredTableIdentifier = Some (rd_Id d),
                     uci_Description = None, uci_Name = None\<rparr>
        in bind (if d_HasChanges d [''description'']
                 then as_string (d_Get d ''description'') else Returned []) (\<lambda>descr.
           bind (if d_HasChanges d [''name'']
                 then as_string (d_Get d ''name'') else Returned []) (\<lambda>name'.
             let input = (if d_HasChanges d [''description'']
                          then input\<lparr>uci_Description := Some descr\<rparr> else input);
                 input = (if d_HasChanges d [''name'']
                          then input\<lparr>uci_Name := Some name'\<rparr> else input);
                 err = UpdateConfiguredTable conn input;
                 calls = [UpdateConfiguredTableCall input]
             in case err of
                  Some e \<Rightarrow>
                    (Returned ([DiagError ErrActionUpdating ResNameConfiguredTable (rd_Id d) e],
                               d), calls)
                | None \<Rightarrow>
                    let (r, calls2) = resourceConfiguredTableRead conn d
                    in (r, calls @ calls2)))
      else resourceConfiguredTableRead conn d)"

definition resourceConfiguredTableDelete ::
  "cleanrooms_Client \<Rightarrow> ResourceData
     \<Rightarrow> (sdk_diag list \<times> ResourceData) outcome \<times> cleanrooms_call list" where
  "resourceConfiguredTableDelete conn d =
     (let in' = \<lparr>dci_ConfiguredTableIdentifier = Some (rd_Id d)\<rparr>;
          err = DeleteConfiguredTable conn in';
          calls = [DeleteConfiguredTableCall in']
      in case err of
           Some e \<Rightarrow>
             (Returned ([DiagError ErrActionDeleting ResNameConfiguredTable (rd_Id d) e], d),
              calls)
         | None \<Rightarrow> (Returned ([], d), calls))"

text \<open>
  The importer is \<open>schema.ImportStatePassthroughContext\<close>: the resource data that Read
  receives after an import holds the identifier as its id and nothing else.
\<close>

definition ImportStatePassthroughContext :: "string \<Rightarrow> ResourceData" where
  "ImportStatePassthroughContext ident =
     \<lparr>rd_Id = ident, rd_IsNewResource = False, rd_state = Map.empty, rd_attrs = Map.empty\<rparr>"

section \<open>Concrete remotes and records\<close>

text \<open>A SESV2 remote that holds one tenant, named \<open>t1\<close> with the id \<open>id-1\<close>.\<close>

definition new_year_2024 :: go_time where
  "new_year_2024 = \<lparr>t_year = 2024, t_month = 1, t_day = 1, t_hour = 0, t_minute = 0,
                     t_second = 0, t_offset = 0\<rparr>"

definition tenant_t1 :: Tenant where
  "tenant_t1 = \<lparr>tn_CreatedTimestamp = Some new_year_2024, tn_SendingStatus = ''ENABLED'',
                 tn_Tags = [], tn_TenantArn = Some ''arn:...:tenant/id-1'',
                 tn_TenantId = Some ''id-1'', tn_TenantName = Some ''t1''\<rparr>"

definition info_t1 :: TenantInfo where
  "info_t1 = \<lparr>ti_CreatedTimestamp = Some new_year_2024,
               ti_TenantArn = Some ''arn:...:tenant/id-1'',
               ti_TenantId = Some ''id-1'', ti_TenantName = Some ''t1''\<rparr>"

definition remote_with_t1 :: sesv2_Client where
  "remote_with_t1 =
     \<lparr>CreateTenant = (\<lambda>i. (None, Some (OperationError ''AlreadyExistsException''))),
      GetTenant = (\<lambda>i. if gti_TenantName i = Some ''t1''
                        then (Some \<lparr>gto_Tenant = Some tenant_t1\<rparr>, None)
                        else (None, Some NotFoundException)),
      DeleteTenant = (\<lambda>i. if dti_TenantName i = Some ''t1'' then None
                           else Some NotFoundException),
      ListTenantsPages = [Inr \<lparr>lto_NextToken = None, lto_Tenants = [info_t1]\<rparr>]\<rparr>"

text \<open>
  The answer of the scenario: the created tenant with its id, ARN and timestamp; the
  first echoes the tenant name of the request, the second leaves it nil.
\<close>

definition created_t1 :: "string option \<Rightarrow> CreateTenantOutput" where
  "created_t1 echoed =
     \<lparr>cto_CreatedTimestamp = Some new_year_2024, cto_SendingStatus = ''ENABLED'',
      cto_Tags = [], cto_TenantArn = Some ''arn:...:tenant/id-1'',
      cto_TenantId = Some ''id-1'', cto_TenantName = echoed\<rparr>"

definition remote_creating :: "string option \<Rightarrow> sesv2_Client" where
  "remote_creating echoed = remote_with_t1\<lparr>CreateTenant := (\<lambda>i. (Some (created_t1 echoed), None))\<rparr>"

definition plan_t1 :: resourceTenantModel where
  "plan_t1 = null_model\<lparr>m_TenantName := Some ''t1''\<rparr>"

text \<open>A SESV2 remote whose create call reports success with an output without id.\<close>

definition remote_without_id :: sesv2_Client where
  "remote_without_id =
     remote_with_t1\<lparr>CreateTenant := (\<lambda>i. (Some ((created_t1 None)\<lparr>cto_TenantId := None\<rparr>), None))\<rparr>"

text \<open>A Clean Rooms remote that holds one configured table, with the id \<open>ct-1\<close>.\<close>

definition table_ct1 :: ConfiguredTable where
  "table_ct1 =
     \<lparr>ct_AllowedColumns = [''c1''], ct_AnalysisMethod = ''DIRECT_QUERY'',
      ct_Arn = Some ''arn:...:configuredtable/ct-1'', ct_CreateTime = Some new_year_2024,
      ct_Description = Some ''old'', ct_Id = Some ''ct-1'', ct_Name = Some ''table'',
      ct_TableReference = Some (TableReferenceMemberGlue
         \<lparr>DatabaseName = Some ''db'', TableName = Some ''tbl''\<rparr>),
      ct_UpdateTime = Some (new_year_2024\<lparr>t_day := 2\<rparr>)\<rparr>"

definition remote_with_ct1 :: cleanrooms_Client where
  "remote_with_ct1 =
     \<lparr>CreateConfiguredTable = (\<lambda>i. (Some \<lparr>cco_ConfiguredTable = None\<rparr>, None)),
      GetConfiguredTable = (\<lambda>i. if gci_ConfiguredTableIdentifier i = Some ''ct-1''
           then (Some \<lparr>gco_ConfiguredTable = Some table_ct1\<rparr>, None)
           else (None, Some ResourceNotFoundException)),
      UpdateConfiguredTable = (\<lambda>i. if uci_ConfiguredTableIdentifier i = Some ''ct-1''
           then None else Some ResourceNotFoundException),
      DeleteConfiguredTable = (\<lambda>i. if dci_ConfiguredTableIdentifier i = Some ''ct-1''
           then None else Some ResourceNotFoundException),
      TagsIn = []\<rparr>"

text \<open>The attributes of that table as a state holds them, and resource data over them.\<close>

definition attrs_ct1 :: "(string \<times> iface) list" where
  "attrs_ct1 =
     [(''allowed_columns'', ISet [''c1'']),
      (''analysis_method'', IString ''DIRECT_QUERY''),
      (''arn'', IString ''arn:...:configuredtable/ct-1''),
      (''description'', IString ''old''),
      (''name'', IString ''table''),
      (''table_reference'',
         IList [IMap [(''database_name'', IString ''db''), (''table_name'', IString ''tbl'')]])]"

definition data_ct1 :: "(string \<times> iface) list \<Rightarrow> ResourceData" where
  "data_ct1 planned =
     \<lparr>rd_Id = ''ct-1'', rd_IsNewResource = False, rd_state = map_of attrs_ct1,
      rd_attrs = map_of (planned @ attrs_ct1)\<rparr>"

text \<open>The configuration of that table before it is created.\<close>

definition data_new :: ResourceData where
  "data_new =
     \<lparr>rd_Id = [], rd_IsNewResource = True, rd_state = Map.empty,
      rd_attrs = map_of
        [(''allowed_columns'', ISet [''c1'']),
         (''analysis_method'', IString ''DIRECT_QUERY''),
         (''name'', IString ''table''),
         (''table_reference'',
            IList [IMap [(''database_name'', IString ''db''),
                         (''table_name'', IString ''tbl'')]])]\<rparr>"

definition tags_only :: "(string \<times> iface) list" where
  "tags_only = [(''tags'', IMap [(''k'', IString ''v'')]),
                (''tags_all'', IMap [(''k'', IString ''v'')])]"

definition description_and_columns :: "(string \<times> iface) list" where
  "description_and_columns =
     [(''description'', IString ''new''), (''allowed_columns'', ISet [''c1'', ''c2''])]"

section \<open>Facts about the sweeper\<close>






section \<open>Facts about the tenant resource\<close>

lemma FindTenantByName_error:
  "snd (GetTenant conn \<lparr>gti_TenantName = Some n\<rparr>) = Some e \<Longrightarrow>
     fst (fst (FindTenantByName conn n)) = None"
  by (simp add: FindTenantByName_def Let_def split_beta)

text \<open>Whenever the get call fails, Read panics at the line that prints the name.\<close>

lemma resourceTenant_Read_error_panics:
  assumes "\<not> HasError ds"
    and "snd (GetTenant conn \<lparr>gti_TenantName = Some (ValueString (m_TenantName state))\<rparr>) = Some e"
  shows "fst (resourceTenant_Read conn \<lparr>rr_State = (ds, state)\<rparr>) = Panicked NilPointerDereference"
  using assms FindTenantByName_error [OF assms(2)]
  by (simp add: resourceTenant_Read_def Let_def split_beta smerr_AddEnrich_def)

text \<open>
  C1. Read of the tenant \<open>gone\<close>, which the remote does not hold: the get call answers
  with \<open>NotFoundException\<close>, the finder returns a nil tenant with the not-found error,
  and Read panics on the nil tenant before it looks at the error. It neither signals
  \<open>NotFound\<close> nor removes the record.
\<close>

theorem resourceTenant_Read_absent_panics:
  "resourceTenant_Read remote_with_t1 \<lparr>rr_State = ([], plan_t1\<lparr>m_TenantName := Some ''gone''\<rparr>)\<rparr>
     = (Panicked NilPointerDereference, [GetTenantCall \<lparr>gti_TenantName = Some ''gone''\<rparr>])"
  by (simp add: resourceTenant_Read_def FindTenantByName_def remote_with_t1_def plan_t1_def
      null_model_def smerr_AddEnrich_def HasError_def ValueString_def smarterr_NewError_def)

text \<open>
  C3. Import of the tenant under its name \<open>t1\<close>, or under its id \<open>id-1\<close>, gives a state
  with the attribute \<open>id\<close> only. Read on that state asks the remote for the tenant with
  the empty name, which it does not hold, and panics: it does not find the tenant.
\<close>

theorem resourceTenant_Read_after_import:
  "State (resourceTenant_ImportState ''t1'') = Some (null_model\<lparr>m_ID := Some ''t1''\<rparr>)
   \<and> resourceTenant_Read remote_with_t1 \<lparr>rr_State = ([], null_model\<lparr>m_ID := Some ''t1''\<rparr>)\<rparr>
     = (Panicked NilPointerDereference, [GetTenantCall \<lparr>gti_TenantName = Some []\<rparr>])
   \<and> State (resourceTenant_ImportState ''id-1'') = Some (null_model\<lparr>m_ID := Some ''id-1''\<rparr>)
   \<and> resourceTenant_Read remote_with_t1 \<lparr>rr_State = ([], null_model\<lparr>m_ID := Some ''id-1''\<rparr>)\<rparr>
     = (Panicked NilPointerDereference, [GetTenantCall \<lparr>gti_TenantName = Some []\<rparr>])"
  by (simp add: resourceTenant_ImportState_def resourceTenant_Read_def FindTenantByName_def
      remote_with_t1_def null_model_def smerr_AddEnrich_def HasError_def ValueString_def
      smarterr_NewError_def)

text \<open>The get call of Read after an import never depends on the imported identifier.\<close>

lemma import_then_Read_key:
  "State (resourceTenant_ImportState ident) = Some st \<Longrightarrow>
     snd (resourceTenant_Read conn \<lparr>rr_State = ([], st)\<rparr>)
       = [GetTenantCall \<lparr>gti_TenantName = Some []\<rparr>]"
  by (auto simp: resourceTenant_ImportState_def resourceTenant_Read_def FindTenantByName_def
      null_model_def smerr_AddEnrich_def HasError_def ValueString_def Let_def split_beta
      split: option.splits)

text \<open>What the configured table's Read does after an import of an existing id.\<close>

lemma import_then_resourceConfiguredTableRead:
  assumes "GetConfiguredTable conn \<lparr>gci_ConfiguredTableIdentifier = Some ident\<rparr>
             = (Some \<lparr>gco_ConfiguredTable = Some t\<rparr>, None)"
  shows "\<exists>d. resourceConfiguredTableRead conn (ImportStatePassthroughContext ident)
     = (Returned ([], d), [GetConfiguredTableCall \<lparr>gci_ConfiguredTableIdentifier = Some ident\<rparr>])
     \<and> rd_Id d = ident \<and> rd_attrs d ''arn'' = Some (string_ptr (ct_Arn t))"
  using assms
  by (cases "ct_Arn t"; cases "ct_Name t"; cases "ct_Description t"; cases "ct_CreateTime t")
     (simp_all add: resourceConfiguredTableRead_def findConfiguredTableByID_def
      ImportStatePassthroughContext_def tfresource_NotFound_def d_Set_def string_ptr_def
      time_ptr_def ResourceConfiguredTable_Schema_def schema0_def)


text \<open>
  C9. When the plan holds the tenant name \<open>t1\<close> and the create call returns the id
  \<open>id-1\<close>, the ARN \<open>arn:...:tenant/id-1\<close>, the timestamp 2024-01-01T00:00:00Z and
  the tenant name \<open>t1\<close>, Create saves a record with that id and ARN, the timestamp in
  RFC 3339 and the tenant name \<open>t1\<close>, the latter copied from the answer.
\<close>

theorem resourceTenant_Create_scenario:
  assumes "cr_Plan req = ([], plan)"
    and "m_TenantName plan = Some ''t1''"
    and "CreateTenant conn \<lparr>cti_Tags = [], cti_TenantName = Some ''t1''\<rparr> = (Some out, None)"
    and "cto_TenantId out = Some ''id-1''"
    and "cto_TenantArn out = Some ''arn:...:tenant/id-1''"
    and "cto_CreatedTimestamp out = Some new_year_2024"
    and "cto_TenantName out = Some ''t1''"
  shows "\<exists>saved. fst (resourceTenant_Create conn req)
             = Returned \<lparr>Diagnostics = [], State = Some saved\<rparr>
           \<and> m_ID saved = Some ''id-1''
           \<and> m_ARN saved = Some ''arn:...:tenant/id-1''
           \<and> m_CreatedTimestamp saved = Some ''2024-01-01T00:00:00Z''
           \<and> m_TenantName saved = Some ''t1''"
proof -
  have fmt: "Format_RFC3339 new_year_2024 = ''2024-01-01T00:00:00Z''"
    by (simp add: Format_RFC3339_def new_year_2024_def pad4_def pad2_def digit_def zone_def)
  show ?thesis
    using assms
    by (simp add: resourceTenant_Create_def flex_Expand_def flex_Flatten_CreateTenantOutput_def
        smerr_AddEnrich_def HasError_def types_StringValue_def aws_ToString_def aws_ToTime_def
        fmt)
qed

theorem resourceTenant_Create_scenario_witness:
  "\<exists>saved. fst (resourceTenant_Create (remote_creating (Some ''t1'')) \<lparr>cr_Plan = ([], plan_t1)\<rparr>)
             = Returned \<lparr>Diagnostics = [], State = Some saved\<rparr>
           \<and> m_ID saved = Some ''id-1''
           \<and> m_ARN saved = Some ''arn:...:tenant/id-1''
           \<and> m_CreatedTimestamp saved = Some ''2024-01-01T00:00:00Z''
           \<and> m_TenantName saved = Some ''t1''"
  using resourceTenant_Create_scenario [where conn = "remote_creating (Some ''t1'')"
      and req = "\<lparr>cr_Plan = ([], plan_t1)\<rparr>" and plan = plan_t1
      and out = "created_t1 (Some ''t1'')"]
  by (simp add: remote_creating_def remote_with_t1_def created_t1_def plan_t1_def null_model_def)

text \<open>
  With the answer exactly as listed (id, ARN and timestamp, no tenant name) the record
  that Create saves has a null tenant name, not \<open>t1\<close>.
\<close>

theorem resourceTenant_Create_without_echo:
  "fst (resourceTenant_Create (remote_creating None) \<lparr>cr_Plan = ([], plan_t1)\<rparr>)
     = Returned \<lparr>Diagnostics = [],
         State = Some \<lparr>m_Region = None, m_ARN = Some ''arn:...:tenant/id-1'',
                   m_CreatedTimestamp = Some ''2024-01-01T00:00:00Z'', m_ID = Some ''id-1'',
                   m_SendingStatus = Some ''ENABLED'', m_Tags = None, m_TagsAll = None,
                   m_TenantName = None\<rparr>\<rparr>
   \<and> m_TenantName plan_t1 = Some ''t1''"
  by (simp add: resourceTenant_Create_def flex_Expand_def flex_Flatten_CreateTenantOutput_def
      smerr_AddEnrich_def HasError_def types_StringValue_def aws_ToString_def aws_ToTime_def
      remote_creating_def remote_with_t1_def created_t1_def plan_t1_def null_model_def
      Format_RFC3339_def new_year_2024_def pad4_def pad2_def digit_def zone_def)

section \<open>Facts about the configured table resource\<close>

lemma d_Set_Id: "rd_Id (snd (d_Set d k v)) = rd_Id d"
  by (simp add: d_Set_def split: option.splits)

lemma d_Set_other: "k' \<noteq> k \<Longrightarrow> rd_attrs (snd (d_Set d k v)) k' = rd_attrs d k'"
  by (simp add: d_Set_def split: option.splits)

lemma resourceConfiguredTableRead_calls:
  "snd (resourceConfiguredTableRead conn d)
     = [GetConfiguredTableCall \<lparr>gci_ConfiguredTableIdentifier = Some (rd_Id d)\<rparr>]"
  by (simp add: resourceConfiguredTableRead_def findConfiguredTableByID_def Let_def split_beta
      split: option.splits)

text \<open>Read writes at most seven attributes; \<open>update_time\<close> is not among them.\<close>

lemma resourceConfiguredTableRead_writes:
  assumes "fst (resourceConfiguredTableRead conn d) = Returned (ds, d')"
    and "k \<notin> {''arn'', ''name'', ''description'', ''allowed_columns'', ''analysis_method'',
               ''create_time'', ''table_reference''}"
  shows "rd_attrs d' k = rd_attrs d k"
  using assms
  by (auto simp: resourceConfiguredTableRead_def findConfiguredTableByID_def Let_def split_beta
      d_SetId_def d_Set_other split: option.splits if_splits)

text \<open>The creation time that Read passes to \<open>d.Set\<close> is refused, and nothing is stored.\<close>

lemma d_Set_create_time_refused:
  "d_Set d ''create_time'' (time_ptr (Some t)) = (Some (ErrorsNew ''unconvertible type''), d)"
  by (simp add: d_Set_def time_ptr_def ResourceConfiguredTable_Schema_def schema0_def)

text \<open>
  C4. Read of the imported configured table \<open>ct-1\<close> succeeds and sets the ARN, but
  leaves \<open>update_time\<close>, which the schema declares computed, unset although the remote
  table has an update time: Read never sets it. The creation time is unset as well:
  Read passes the \<open>*time.Time\<close> of the remote table to \<open>d.Set\<close>, which refuses it for
  the string attribute, and drops the error.
\<close>

theorem resourceConfiguredTableRead_update_time:
  "(case fst (resourceConfiguredTableRead remote_with_ct1 (ImportStatePassthroughContext ''ct-1''))
    of Returned (ds, d) \<Rightarrow>
         ds = [] \<and> rd_attrs d ''arn'' = Some (IString ''arn:...:configuredtable/ct-1'')
         \<and> rd_attrs d ''update_time'' = None \<and> d_Get d ''update_time'' = IString []
         \<and> rd_attrs d ''create_time'' = None \<and> d_Get d ''create_time'' = IString []
     | Panicked p \<Rightarrow> False)
   \<and> ct_UpdateTime table_ct1 = Some (new_year_2024\<lparr>t_day := 2\<rparr>)
   \<and> ct_CreateTime table_ct1 = Some new_year_2024
   \<and> map_of ResourceConfiguredTable_Schema ''update_time''
       = Some ((schema0 TypeString)\<lparr>Computed := True\<rparr>)
   \<and> map_of ResourceConfiguredTable_Schema ''create_time''
       = Some ((schema0 TypeString)\<lparr>Computed := True\<rparr>)"
  by (simp add: resourceConfiguredTableRead_def findConfiguredTableByID_def d_Set_def
      ImportStatePassthroughContext_def remote_with_ct1_def table_ct1_def
      tfresource_NotFound_def time_ptr_def string_ptr_def ResourceConfiguredTable_Schema_def
      schema0_def d_Get_def read_level_def zero_value_def)

text \<open>
  Read of a configured table that the remote does not hold: the finder returns the
  error of the get call as it is, which is not the \<open>retry.NotFoundError\<close> that
  \<open>FindTenantByName\<close> builds, and Read reports it as an error.
\<close>

lemma resourceConfiguredTableRead_absent:
  "fst (resourceConfiguredTableRead remote_with_ct1 (ImportStatePassthroughContext ''gone''))
     = Returned ([DiagError ErrActionReading ResNameConfiguredTable ''gone''
                    ResourceNotFoundException], ImportStatePassthroughContext ''gone'')"
  by (simp add: resourceConfiguredTableRead_def findConfiguredTableByID_def
      remote_with_ct1_def ImportStatePassthroughContext_def tfresource_NotFound_def)

lemma bind_calls:
  "c \<in> set (snd (bind x f)) \<Longrightarrow> \<exists>v. x = Returned v \<and> c \<in> set (snd (f v))"
  by (cases x) (simp_all add: bind_def)

lemma as_string_Returned: "as_string v = Returned s \<longleftrightarrow> v = IString s"
  by (cases v) (simp_all add: as_string_def)

text \<open>
  The form of every update call: the id of the resource, the planned description when
  the description changes, the planned name when the name changes.
\<close>

lemma resourceConfiguredTableUpdate_call_form:
  assumes "UpdateConfiguredTableCall inp \<in> set (snd (resourceConfiguredTableUpdate conn d))"
  shows "\<exists>descr name'.
      (if d_HasChanges d [''description''] then as_string (d_Get d ''description'')
       else Returned []) = Returned descr
    \<and> (if d_HasChanges d [''name''] then as_string (d_Get d ''name'')
       else Returned []) = Returned name'
    \<and> inp = \<lparr>uci_ConfiguredTableIdentifier = Some (rd_Id d),
             uci_Description = (if d_HasChanges d [''description''] then Some descr else None),
             uci_Name = (if d_HasChanges d [''name''] then Some name' else None)\<rparr>"
proof -
  define X where "X = (if d_HasChanges d [''description'']
                       then as_string (d_Get d ''description'') else Returned [])"
  define Y where "Y = (if d_HasChanges d [''name'']
                       then as_string (d_Get d ''name'') else Returned [])"
  have ex: "d_HasChangesExcept d [''tags'', ''tags_all'']"
    using assms
    by (auto simp: resourceConfiguredTableUpdate_def resourceConfiguredTableRead_calls
        split: if_splits)
  show ?thesis
  proof (cases X)
    case (Panicked p)
    then have "snd (resourceConfiguredTableUpdate conn d) = []"
      using ex unfolding resourceConfiguredTableUpdate_def X_def by (simp add: bind_def)
    with assms show ?thesis by simp
  next
    case X: (Returned descr)
    show ?thesis
    proof (cases Y)
      case (Panicked p)
      then have "snd (resourceConfiguredTableUpdate conn d) = []"
        using ex X unfolding resourceConfiguredTableUpdate_def X_def Y_def
        by (simp add: bind_def)
      with assms show ?thesis by simp
    next
      case Y: (Returned name')
      have "set (snd (resourceConfiguredTableUpdate conn d)) \<subseteq>
          {UpdateConfiguredTableCall \<lparr>uci_ConfiguredTableIdentifier = Some (rd_Id d),
             uci_Description = (if d_HasChanges d [''description''] then Some descr else None),
             uci_Name = (if d_HasChanges d [''name''] then Some name' else None)\<rparr>,
           GetConfiguredTableCall \<lparr>gci_ConfiguredTableIdentifier = Some (rd_Id d)\<rparr>}"
        using ex X Y unfolding resourceConfiguredTableUpdate_def X_def Y_def
        by (auto simp: bind_def Let_def split_beta resourceConfiguredTableRead_calls
            split: option.splits)
      with assms have "inp = \<lparr>uci_ConfiguredTableIdentifier = Some (rd_Id d),
             uci_Description = (if d_HasChanges d [''description''] then Some descr else None),
             uci_Name = (if d_HasChanges d [''name''] then Some name' else None)\<rparr>"
        by auto
      with X Y show ?thesis unfolding X_def Y_def by blast
    qed
  qed
qed

lemma resourceConfiguredTableUpdate_call_payload:
  assumes "UpdateConfiguredTableCall inp \<in> set (snd (resourceConfiguredTableUpdate conn d))"
  shows "uci_ConfiguredTableIdentifier inp = Some (rd_Id d)"
    and "uci_Description inp = None \<longleftrightarrow> \<not> d_HasChange d ''description''"
    and "\<And>s. uci_Description inp = Some s \<Longrightarrow> d_Get d ''description'' = IString s"
    and "uci_Name inp = None \<longleftrightarrow> \<not> d_HasChange d ''name''"
    and "\<And>s. uci_Name inp = Some s \<Longrightarrow> d_Get d ''name'' = IString s"
proof -
  from resourceConfiguredTableUpdate_call_form [OF assms] obtain descr name' where
    descr: "(if d_HasChanges d [''description''] then as_string (d_Get d ''description'')
             else Returned []) = Returned descr"
    and name': "(if d_HasChanges d [''name''] then as_string (d_Get d ''name'')
             else Returned []) = Returned name'"
    and inp: "inp = \<lparr>uci_ConfiguredTableIdentifier = Some (rd_Id d),
                uci_Description = (if d_HasChanges d [''description''] then Some descr else None),
                uci_Name = (if d_HasChanges d [''name''] then Some name' else None)\<rparr>"
    by blast
  show "uci_ConfiguredTableIdentifier inp = Some (rd_Id d)" using inp by simp
  show "uci_Description inp = None \<longleftrightarrow> \<not> d_HasChange d ''description''"
    using inp by (simp add: d_HasChanges_def)
  show "\<And>s. uci_Description inp = Some s \<Longrightarrow> d_Get d ''description'' = IString s"
    using inp descr by (auto simp: as_string_Returned split: if_splits)
  show "uci_Name inp = None \<longleftrightarrow> \<not> d_HasChange d ''name''"
    using inp by (simp add: d_HasChanges_def)
  show "\<And>s. uci_Name inp = Some s \<Longrightarrow> d_Get d ''name'' = IString s"
    using inp name' by (auto simp: as_string_Returned split: if_splits)
qed

text \<open>Two resource data that agree on an attribute agree on its reading and change.\<close>

lemma d_Get_cong:
  "rd_attrs d' k = rd_attrs d k \<Longrightarrow> d_Get d' k = d_Get d k"
  by (simp add: d_Get_def read_level_def)

lemma d_HasChange_cong:
  "rd_state d' k = rd_state d k \<Longrightarrow> rd_attrs d' k = rd_attrs d k \<Longrightarrow>
     d_HasChange d' k = d_HasChange d k"
  by (simp add: d_HasChange_def d_Get_def read_level_def)

lemma ForceNew_attributes:
  "map fst (filter (\<lambda>(k, s). ForceNew s) ResourceConfiguredTable_Schema)
     = [''allowed_columns'', ''table_reference'']"
  by (simp add: ResourceConfiguredTable_Schema_def schema0_def)

text \<open>
  C6. An update call that Update sends holds the id of the resource, a description
  exactly when the description changes, then the planned one, and a name exactly when the
  name changes, then the planned one: changed mutable fields only. The attributes with
  ForceNew are \<open>allowed_columns\<close> and \<open>table_reference\<close>, and the payload does not
  depend on them: resource data with the same id that differ from the given ones at
  most in those two attributes, in their prior or their planned values, send the same
  payload whenever they send one.
\<close>

theorem resourceConfiguredTableUpdate_payload:
  assumes "UpdateConfiguredTableCall inp \<in> set (snd (resourceConfiguredTableUpdate conn d))"
  shows "uci_ConfiguredTableIdentifier inp = Some (rd_Id d)
    \<and> (uci_Description inp = None \<longleftrightarrow> \<not> d_HasChange d ''description'')
    \<and> (\<forall>s. uci_Description inp = Some s \<longrightarrow> d_Get d ''description'' = IString s)
    \<and> (uci_Name inp = None \<longleftrightarrow> \<not> d_HasChange d ''name'')
    \<and> (\<forall>s. uci_Name inp = Some s \<longrightarrow> d_Get d ''name'' = IString s)
    \<and> map fst (filter (\<lambda>(k, s). ForceNew s) ResourceConfiguredTable_Schema)
         = [''allowed_columns'', ''table_reference'']
    \<and> (\<forall>conn' d' inp'.
          rd_Id d' = rd_Id d
          \<and> (\<forall>k. k \<noteq> ''allowed_columns'' \<and> k \<noteq> ''table_reference''
                \<longrightarrow> rd_state d' k = rd_state d k \<and> rd_attrs d' k = rd_attrs d k)
          \<and> UpdateConfiguredTableCall inp' \<in> set (snd (resourceConfiguredTableUpdate conn' d'))
          \<longrightarrow> inp' = inp)"
proof -
  note p = resourceConfiguredTableUpdate_call_payload [OF assms]
  have "inp' = inp"
    if id: "rd_Id d' = rd_Id d"
      and same: "\<forall>k. k \<noteq> ''allowed_columns'' \<and> k \<noteq> ''table_reference''
                \<longrightarrow> rd_state d' k = rd_state d k \<and> rd_attrs d' k = rd_attrs d k"
      and call: "UpdateConfiguredTableCall inp' \<in> set (snd (resourceConfiguredTableUpdate conn' d'))"
    for conn' d' inp'
  proof -
    note q = resourceConfiguredTableUpdate_call_payload [OF call]
    have hd: "d_HasChange d' ''description'' = d_HasChange d ''description''"
      and hn: "d_HasChange d' ''name'' = d_HasChange d ''name''"
      and gd: "d_Get d' ''description'' = d_Get d ''description''"
      and gn: "d_Get d' ''name'' = d_Get d ''name''"
      using same [rule_format, of "''description''"] same [rule_format, of "''name''"]
        d_HasChange_cong [of d' "''description''" d] d_HasChange_cong [of d' "''name''" d]
        d_Get_cong [of d' "''description''" d] d_Get_cong [of d' "''name''" d]
      by simp_all
    have 1: "uci_ConfiguredTableIdentifier inp' = uci_ConfiguredTableIdentifier inp"
      using p(1) q(1) id by simp
    have 2: "uci_Description inp' = uci_Description inp"
    proof (cases "uci_Description inp")
      case None
      then show ?thesis using p(2) q(2) hd by simp
    next
      case (Some s)
      then obtain s' where s': "uci_Description inp' = Some s'"
        using p(2) q(2) hd by (cases "uci_Description inp'") auto
      from p(3) [OF Some] q(3) [OF s'] gd have "s' = s" by simp
      with Some s' show ?thesis by simp
    qed
    have 3: "uci_Name inp' = uci_Name inp"
    proof (cases "uci_Name inp")
      case None
      then show ?thesis using p(4) q(4) hn by simp
    next
      case (Some s)
      then obtain s' where s': "uci_Name inp' = Some s'"
        using p(4) q(4) hn by (cases "uci_Name inp'") auto
      from p(5) [OF Some] q(5) [OF s'] gn have "s' = s" by simp
      with Some s' show ?thesis by simp
    qed
    from 1 2 3 show ?thesis by simp
  qed
  then have frame: "\<forall>conn' d' inp'.
          rd_Id d' = rd_Id d
          \<and> (\<forall>k. k \<noteq> ''allowed_columns'' \<and> k \<noteq> ''table_reference''
                \<longrightarrow> rd_state d' k = rd_state d k \<and> rd_attrs d' k = rd_attrs d k)
          \<and> UpdateConfiguredTableCall inp' \<in> set (snd (resourceConfiguredTableUpdate conn' d'))
          \<longrightarrow> inp' = inp"
    by (intro allI impI) (elim conjE)
  show ?thesis
  proof (intro conjI)
    show "uci_ConfiguredTableIdentifier inp = Some (rd_Id d)" by (rule p(1))
    show "uci_Description inp = None \<longleftrightarrow> \<not> d_HasChange d ''description''" by (rule p(2))
    show "\<forall>s. uci_Description inp = Some s \<longrightarrow> d_Get d ''description'' = IString s"
      by (intro allI impI) (rule p(3))
    show "uci_Name inp = None \<longleftrightarrow> \<not> d_HasChange d ''name''" by (rule p(4))
    show "\<forall>s. uci_Name inp = Some s \<longrightarrow> d_Get d ''name'' = IString s"
      by (intro allI impI) (rule p(5))
    show "map fst (filter (\<lambda>(k, s). ForceNew s) ResourceConfiguredTable_Schema)
         = [''allowed_columns'', ''table_reference'']" by (rule ForceNew_attributes)
    show "\<forall>conn' d' inp'.
          rd_Id d' = rd_Id d
          \<and> (\<forall>k. k \<noteq> ''allowed_columns'' \<and> k \<noteq> ''table_reference''
                \<longrightarrow> rd_state d' k = rd_state d k \<and> rd_attrs d' k = rd_attrs d k)
          \<and> UpdateConfiguredTableCall inp' \<in> set (snd (resourceConfiguredTableUpdate conn' d'))
          \<longrightarrow> inp' = inp" by (rule frame)
  qed
qed

theorem resourceConfiguredTableUpdate_payload_witness:
  "snd (resourceConfiguredTableUpdate remote_with_ct1 (data_ct1 description_and_columns))
     = [UpdateConfiguredTableCall \<lparr>uci_ConfiguredTableIdentifier = Some ''ct-1'',
          uci_Description = Some ''new'', uci_Name = None\<rparr>,
        GetConfiguredTableCall \<lparr>gci_ConfiguredTableIdentifier = Some ''ct-1''\<rparr>]
   \<and> d_HasChange (data_ct1 description_and_columns) ''allowed_columns''
   \<and> d_HasChange (data_ct1 description_and_columns) ''description''
   \<and> \<not> d_HasChange (data_ct1 description_and_columns) ''name''
   \<and> d_Get (data_ct1 description_and_columns) ''description'' = IString ''new''"
proof -
  have calls: "snd (resourceConfiguredTableUpdate remote_with_ct1 (data_ct1 description_and_columns))
     = [UpdateConfiguredTableCall \<lparr>uci_ConfiguredTableIdentifier = Some ''ct-1'',
          uci_Description = Some ''new'', uci_Name = None\<rparr>,
        GetConfiguredTableCall \<lparr>gci_ConfiguredTableIdentifier = Some ''ct-1''\<rparr>]"
    by (simp add: resourceConfiguredTableUpdate_def resourceConfiguredTableRead_calls
        d_HasChangesExcept_def d_HasChanges_def d_HasChange_def d_Get_def read_level_def
        zero_value_def schema_keys_def ResourceConfiguredTable_Schema_def schema0_def
        data_ct1_def description_and_columns_def attrs_ct1_def remote_with_ct1_def
        bind_def as_string_def split_beta)
  have ac: "d_HasChange (data_ct1 description_and_columns) ''allowed_columns''"
    by (simp add: d_HasChange_def d_Get_def read_level_def data_ct1_def
        description_and_columns_def attrs_ct1_def)
  from calls have "UpdateConfiguredTableCall \<lparr>uci_ConfiguredTableIdentifier = Some ''ct-1'',
          uci_Description = Some ''new'', uci_Name = None\<rparr>
      \<in> set (snd (resourceConfiguredTableUpdate remote_with_ct1
                    (data_ct1 description_and_columns)))"
    by simp
  from resourceConfiguredTableUpdate_payload [OF this] calls ac show ?thesis by simp
qed

lemma d_HasChangesExcept_iff:
  "d_HasChangesExcept d keys \<longleftrightarrow> (\<exists>k \<in> set schema_keys. k \<notin> set keys \<and> d_HasChange d k)"
  by (simp add: d_HasChangesExcept_def list_ex_iff)

text \<open>
  C5. When no attribute of the schema other than \<open>tags\<close> and \<open>tags_all\<close> differs
  between the prior and the planned values, Update sends no update call: its only
  remote call is the get call of the Read that ends it.
\<close>

theorem resourceConfiguredTableUpdate_tags_only:
  assumes "\<forall>k \<in> set schema_keys. k \<noteq> ''tags'' \<and> k \<noteq> ''tags_all'' \<longrightarrow> \<not> d_HasChange d k"
  shows "snd (resourceConfiguredTableUpdate conn d)
           = [GetConfiguredTableCall \<lparr>gci_ConfiguredTableIdentifier = Some (rd_Id d)\<rparr>]"
proof -
  from assms have "\<not> d_HasChangesExcept d [''tags'', ''tags_all'']"
    by (auto simp: d_HasChangesExcept_iff)
  then show ?thesis
    by (simp add: resourceConfiguredTableUpdate_def resourceConfiguredTableRead_calls)
qed

lemma data_ct1_tags_only_changes:
  "d_HasChange (data_ct1 tags_only) k \<longleftrightarrow> k = ''tags'' \<or> k = ''tags_all''"
  by (simp add: d_HasChange_def d_Get_def read_level_def zero_value_def
      ResourceConfiguredTable_Schema_def schema0_def data_ct1_def tags_only_def attrs_ct1_def)

theorem resourceConfiguredTableUpdate_tags_only_witness:
  "snd (resourceConfiguredTableUpdate remote_with_ct1 (data_ct1 tags_only))
     = [GetConfiguredTableCall \<lparr>gci_ConfiguredTableIdentifier = Some ''ct-1''\<rparr>]
   \<and> d_HasChange (data_ct1 tags_only) ''tags''"
proof -
  have only: "\<forall>k \<in> set schema_keys. k \<noteq> ''tags'' \<and> k \<noteq> ''tags_all''
                \<longrightarrow> \<not> d_HasChange (data_ct1 tags_only) k"
    by (simp add: data_ct1_tags_only_changes)
  have ident: "rd_Id (data_ct1 tags_only) = ''ct-1''"
    by (simp add: data_ct1_def)
  from resourceConfiguredTableUpdate_tags_only [OF only, of remote_with_ct1] ident
  show ?thesis by (simp add: data_ct1_tags_only_changes)
qed

text \<open>
  The update of \<open>ct-1\<close> in which only \<open>tags\<close> and \<open>tags_all\<close> change does make a
  remote call, the get call.
\<close>

theorem Update_of_tags_still_gets:
  "\<not> d_HasChangesExcept (data_ct1 tags_only) [''tags'', ''tags_all'']
   \<and> d_HasChange (data_ct1 tags_only) ''tags''
   \<and> d_HasChange (data_ct1 tags_only) ''tags_all''
   \<and> snd (resourceConfiguredTableUpdate remote_with_ct1 (data_ct1 tags_only))
       = [GetConfiguredTableCall \<lparr>gci_ConfiguredTableIdentifier = Some ''ct-1''\<rparr>]
   \<and> snd (resourceConfiguredTableUpdate remote_with_ct1 (data_ct1 tags_only)) \<noteq> []"
proof -
  have 1: "\<not> d_HasChangesExcept (data_ct1 tags_only) [''tags'', ''tags_all'']"
    by (auto simp: d_HasChangesExcept_iff data_ct1_tags_only_changes)
  have ident: "rd_Id (data_ct1 tags_only) = ''ct-1''"
    by (simp add: data_ct1_def)
  from 1 have "snd (resourceConfiguredTableUpdate remote_with_ct1 (data_ct1 tags_only))
       = [GetConfiguredTableCall \<lparr>gci_ConfiguredTableIdentifier = Some ''ct-1''\<rparr>]"
    by (simp add: resourceConfiguredTableUpdate_def resourceConfiguredTableRead_calls ident)
  with 1 show ?thesis by (simp add: data_ct1_tags_only_changes)
qed

text \<open>
  C2. Tenant Delete reports no error when the delete call fails with a
  \<open>NotFoundException\<close>, as it does for a tenant that an earlier Delete removed.
  Configured table Delete reports every error of the delete call, a not-found one too.
\<close>

theorem Delete_on_not_found:
  "(\<not> HasError (fst (dr_State req))
      \<and> DeleteTenant conn \<lparr>dti_TenantName = m_TenantName (snd (dr_State req))\<rparr> = Some e
      \<and> errs_IsA_NotFoundException e
    \<longrightarrow> resourceTenant_Delete conn req
          = (Returned \<lparr>Diagnostics = fst (dr_State req), State = Some (snd (dr_State req))\<rparr>,
             [DeleteTenantCall \<lparr>dti_TenantName = m_TenantName (snd (dr_State req))\<rparr>]))
   \<and> (DeleteConfiguredTable conn' \<lparr>dci_ConfiguredTableIdentifier = Some (rd_Id d)\<rparr> = Some e'
    \<longrightarrow> fst (resourceConfiguredTableDelete conn' d)
          = Returned ([DiagError ErrActionDeleting ResNameConfiguredTable (rd_Id d) e'], d))"
  by (simp add: resourceTenant_Delete_def resourceConfiguredTableDelete_def split_beta
      smerr_AddEnrich_def ValueStringPointer_def)

theorem Delete_on_not_found_witness:
  "resourceTenant_Delete remote_with_t1 \<lparr>dr_State = ([], plan_t1\<lparr>m_TenantName := Some ''gone''\<rparr>)\<rparr>
     = (Returned \<lparr>Diagnostics = [], State = Some (plan_t1\<lparr>m_TenantName := Some ''gone''\<rparr>)\<rparr>,
        [DeleteTenantCall \<lparr>dti_TenantName = Some ''gone''\<rparr>])
   \<and> DeleteTenant remote_with_t1 \<lparr>dti_TenantName = Some ''gone''\<rparr> = Some NotFoundException
   \<and> fst (resourceConfiguredTableDelete remote_with_ct1 (ImportStatePassthroughContext ''gone''))
     = Returned ([DiagError ErrActionDeleting ResNameConfiguredTable ''gone''
                    ResourceNotFoundException], ImportStatePassthroughContext ''gone'')"
  using Delete_on_not_found [where conn = remote_with_t1
      and req = "\<lparr>dr_State = ([], plan_t1\<lparr>m_TenantName := Some ''gone''\<rparr>)\<rparr>"
      and e = NotFoundException and conn' = remote_with_ct1
      and d = "ImportStatePassthroughContext ''gone''" and e' = ResourceNotFoundException]
  by (simp add: remote_with_t1_def remote_with_ct1_def HasError_def
      ImportStatePassthroughContext_def)

text \<open>
  Delete of a configured table that the remote does not hold, as a second Delete in a
  row meets it, reports the not-found error of the delete call.
\<close>

theorem resourceConfiguredTableDelete_not_found_fails:
  "DeleteConfiguredTable remote_with_ct1 \<lparr>dci_ConfiguredTableIdentifier = Some ''gone''\<rparr>
     = Some ResourceNotFoundException
   \<and> resourceConfiguredTableDelete remote_with_ct1 (ImportStatePassthroughContext ''gone'')
     = (Returned ([DiagError ErrActionDeleting ResNameConfiguredTable ''gone''
                     ResourceNotFoundException], ImportStatePassthroughContext ''gone''),
        [DeleteConfiguredTableCall \<lparr>dci_ConfiguredTableIdentifier = Some ''gone''\<rparr>])"
  by (simp add: resourceConfiguredTableDelete_def remote_with_ct1_def
      ImportStatePassthroughContext_def)

text \<open>
  C8. When Create has made its create call and the call reports success with a nil
  output, or with an output whose id (tenant) or configured table is nil, Create ends
  with the error \<open>empty output\<close>; the tenant's response has no state, and the
  configured table's resource data are as they were, with no further remote call.
\<close>

theorem Create_empty_output:
  "(CreateTenantCall inp \<in> set (snd (resourceTenant_Create conn req))
      \<and> CreateTenant conn inp = (out, None)
      \<and> (out = None \<or> (\<exists>res. out = Some res \<and> cto_TenantId res = None))
    \<longrightarrow> resourceTenant_Create conn req
          = (Returned \<lparr>Diagnostics = fst (cr_Plan req)
               @ [ErrorDiagnostic (ErrorsNew ''empty output'') (m_TenantName (snd (cr_Plan req)))],
               State = None\<rparr>,
             [CreateTenantCall inp]))
   \<and> (CreateConfiguredTableCall inp' \<in> set (snd (resourceConfiguredTableCreate conn' d))
      \<and> CreateConfiguredTable conn' inp' = (out', None)
      \<and> (out' = None \<or> (\<exists>res. out' = Some res \<and> cco_ConfiguredTable res = None))
    \<longrightarrow> (\<exists>name'. resourceConfiguredTableCreate conn' d
          = (Returned ([DiagError ErrActionCreating ResNameCollaboration name'
                          (ErrorsNew ''empty output'')], d),
             [CreateConfiguredTableCall inp'])))"
proof (intro conjI impI)
  assume "CreateTenantCall inp \<in> set (snd (resourceTenant_Create conn req))
      \<and> CreateTenant conn inp = (out, None)
      \<and> (out = None \<or> (\<exists>res. out = Some res \<and> cto_TenantId res = None))"
  then show "resourceTenant_Create conn req
          = (Returned \<lparr>Diagnostics = fst (cr_Plan req)
               @ [ErrorDiagnostic (ErrorsNew ''empty output'') (m_TenantName (snd (cr_Plan req)))],
               State = None\<rparr>,
             [CreateTenantCall inp])"
    unfolding resourceTenant_Create_def
    by (auto simp: Let_def split_beta flex_Expand_def smerr_AddEnrich_def smerr_AddError_def
        split: option.splits if_splits)
next
  assume "CreateConfiguredTableCall inp' \<in> set (snd (resourceConfiguredTableCreate conn' d))
      \<and> CreateConfiguredTable conn' inp' = (out', None)
      \<and> (out' = None \<or> (\<exists>res. out' = Some res \<and> cco_ConfiguredTable res = None))"
  then show "\<exists>name'. resourceConfiguredTableCreate conn' d
          = (Returned ([DiagError ErrActionCreating ResNameCollaboration name'
                          (ErrorsNew ''empty output'')], d),
             [CreateConfiguredTableCall inp'])"
    unfolding resourceConfiguredTableCreate_def
    by (auto simp: bind_def Let_def split_beta resourceConfiguredTableRead_calls
        split: outcome.splits option.splits if_splits)
qed

theorem Create_empty_output_witness:
  "resourceTenant_Create remote_without_id \<lparr>cr_Plan = ([], plan_t1)\<rparr>
     = (Returned \<lparr>Diagnostics = [ErrorDiagnostic (ErrorsNew ''empty output'') (Some ''t1'')],
                  State = None\<rparr>,
        [CreateTenantCall \<lparr>cti_Tags = [], cti_TenantName = Some ''t1''\<rparr>])
   \<and> (\<exists>name' inp. resourceConfiguredTableCreate remote_with_ct1 data_new
     = (Returned ([DiagError ErrActionCreating ResNameCollaboration name'
                     (ErrorsNew ''empty output'')], data_new),
        [CreateConfiguredTableCall inp]))"
proof -
  have t: "snd (resourceTenant_Create remote_without_id \<lparr>cr_Plan = ([], plan_t1)\<rparr>)
             = [CreateTenantCall \<lparr>cti_Tags = [], cti_TenantName = Some ''t1''\<rparr>]"
    by (simp add: resourceTenant_Create_def flex_Expand_def smerr_AddEnrich_def HasError_def
        remote_without_id_def remote_with_t1_def plan_t1_def null_model_def created_t1_def
        smerr_AddError_def)
  have tr: "CreateTenant remote_without_id \<lparr>cti_Tags = [], cti_TenantName = Some ''t1''\<rparr>
             = (Some ((created_t1 None)\<lparr>cto_TenantId := None\<rparr>), None)"
    by (simp add: remote_without_id_def)
  have c: "\<exists>inp. snd (resourceConfiguredTableCreate remote_with_ct1 data_new)
             = [CreateConfiguredTableCall inp]"
    by (simp add: resourceConfiguredTableCreate_def bind_def as_string_def as_list_def
        ExpandStringValueSet_def expandTableReference_def map_string_def
        expandAnalysisMethod_def d_Get_def d_GetOk_def read_level_def zero_value_def
        ResourceConfiguredTable_Schema_def schema0_def data_new_def remote_with_ct1_def)
  then obtain inp where inp: "snd (resourceConfiguredTableCreate remote_with_ct1 data_new)
             = [CreateConfiguredTableCall inp]" by blast
  have cr: "CreateConfiguredTable remote_with_ct1 inp = (Some \<lparr>cco_ConfiguredTable = None\<rparr>, None)"
    by (simp add: remote_with_ct1_def)
  from t tr inp cr
    Create_empty_output [where conn = remote_without_id
      and req = "\<lparr>cr_Plan = ([], plan_t1)\<rparr>"
      and inp = "\<lparr>cti_Tags = [], cti_TenantName = Some ''t1''\<rparr>"
      and out = "Some ((created_t1 None)\<lparr>cto_TenantId := None\<rparr>)"
      and conn' = remote_with_ct1 and d = data_new and inp' = inp
      and out' = "Some \<lparr>cco_ConfiguredTable = None\<rparr>"]
  show ?thesis by (simp add: plan_t1_def null_model_def) blast
qed

lemma expandTableReference_Returned_nonempty:
  "expandTableReference data = Returned r \<Longrightarrow> data \<noteq> []"
  by (auto simp: expandTableReference_def)

lemma expandTableReference_well_formed:
  "map_of m ''database_name'' = Some (IString db) \<Longrightarrow>
   map_of m ''table_name'' = Some (IString tbl) \<Longrightarrow>
     expandTableReference (IMap m # rest)
       = Returned (TableReferenceMemberGlue \<lparr>DatabaseName = Some db, TableName = Some tbl\<rparr>)"
  by (simp add: expandTableReference_def map_string_def as_string_def)

text \<open>
  C10. \<open>expandTableReference\<close> panics with an index out of range on the empty list, so
  it returns only on a non-empty list; on a list whose first element is a map with the
  two names as strings it returns the Glue reference; and the schema of
  \<open>table_reference\<close> is required with at most one item and declares no minimum.
\<close>

theorem expandTableReference_needs_nonempty:
  "expandTableReference [] = Panicked IndexOutOfRange
   \<and> (\<forall>data r. expandTableReference data = Returned r \<longrightarrow> data \<noteq> [])
   \<and> (\<forall>m db tbl rest.
         map_of m ''database_name'' = Some (IString db)
         \<and> map_of m ''table_name'' = Some (IString tbl)
         \<longrightarrow> expandTableReference (IMap m # rest)
               = Returned (TableReferenceMemberGlue
                   \<lparr>DatabaseName = Some db, TableName = Some tbl\<rparr>))
   \<and> map_of ResourceConfiguredTable_Schema ''table_reference''
       = Some \<lparr>Type = TypeList, Required = True, Optional = False, Computed = False,
               ForceNew = True, MinItems = 0, MaxItems = 1\<rparr>"
proof (intro conjI allI impI)
  show "expandTableReference [] = Panicked IndexOutOfRange"
    by (simp add: expandTableReference_def)
  show "data \<noteq> []" if "expandTableReference data = Returned r" for data r
    using that by (rule expandTableReference_Returned_nonempty)
  show "expandTableReference (IMap m # rest)
          = Returned (TableReferenceMemberGlue \<lparr>DatabaseName = Some db, TableName = Some tbl\<rparr>)"
    if "map_of m ''database_name'' = Some (IString db)
        \<and> map_of m ''table_name'' = Some (IString tbl)" for m db tbl rest
    using that by (simp add: expandTableReference_well_formed)
  show "map_of ResourceConfiguredTable_Schema ''table_reference''
       = Some \<lparr>Type = TypeList, Required = True, Optional = False, Computed = False,
               ForceNew = True, MinItems = 0, MaxItems = 1\<rparr>"
    by (simp add: ResourceConfiguredTable_Schema_def schema0_def)
qed

theorem expandTableReference_needs_nonempty_witness:
  "expandTableReference [IMap [(''database_name'', IString ''db''), (''table_name'', IString ''tbl'')]]
     = Returned (TableReferenceMemberGlue \<lparr>DatabaseName = Some ''db'', TableName = Some ''tbl''\<rparr>)
   \<and> [IMap [(''database_name'', IString ''db''), (''table_name'', IString ''tbl'')]] \<noteq> []
   \<and> expandTableReference [] = Panicked IndexOutOfRange"
proof -
  have wf: "map_of [(''database_name'', IString ''db''), (''table_name'', IString ''tbl'')]
              ''database_name'' = Some (IString ''db'')
          \<and> map_of [(''database_name'', IString ''db''), (''table_name'', IString ''tbl'')]
              ''table_name'' = Some (IString ''tbl'')"
    by simp
  from expandTableReference_needs_nonempty wf
  have r: "expandTableReference
             [IMap [(''database_name'', IString ''db''), (''table_name'', IString ''tbl'')]]
     = Returned (TableReferenceMemberGlue \<lparr>DatabaseName = Some ''db'', TableName = Some ''tbl''\<rparr>)"
    by blast
  from expandTableReference_needs_nonempty r
  have "[IMap [(''database_name'', IString ''db''), (''table_name'', IString ''tbl'')]] \<noteq> []"
    by blast
  with r expandTableReference_needs_nonempty show ?thesis by blast
qed


end
